theory Spec2Isabelle
  imports Complex_Main "HOL-Library.Word"
begin

unbundle bit_operations_syntax

section \<open>Python values used by the validation node\<close>

text \<open>
  The development embeds \<^verbatim>\<open>src/nodes/validation_node.py\<close> (class \<^verbatim>\<open>ValidationNode\<close>).
  Strings are byte strings; the whitespace and letter classes below are the ASCII ones.
  A Python \<^verbatim>\<open>float\<close> is a binary64 value: a finite value is represented by the rational
  it denotes, and every arithmetic result is rounded to binary64 (round to nearest, ties to
  even) by \<open>to_double\<close>.
\<close>

subsection \<open>Strings\<close>

definition newline :: char where
  "newline = CHR 0x0A"

definition is_space :: "char \<Rightarrow> bool" where
  "is_space c = (let n = (of_char c :: nat) in (9 \<le> n \<and> n \<le> 13) \<or> (28 \<le> n \<and> n \<le> 32))"

definition py_strip :: "string \<Rightarrow> string" where
  "py_strip s = rev (dropWhile is_space (rev (dropWhile is_space s)))"

definition lower_char :: "char \<Rightarrow> char" where
  "lower_char c = (let n = (of_char c :: nat) in if 65 \<le> n \<and> n \<le> 90 then char_of (n + 32) else c)"

definition py_lower :: "string \<Rightarrow> string" where
  "py_lower s = map lower_char s"

text \<open>\<^verbatim>\<open>needle in hay\<close> on strings: a contiguous occurrence.\<close>

fun starts_with :: "string \<Rightarrow> string \<Rightarrow> bool" where
  "starts_with [] hay = True"
| "starts_with (c # cs) [] = False"
| "starts_with (c # cs) (h # hs) = (c = h \<and> starts_with cs hs)"

fun py_in :: "string \<Rightarrow> string \<Rightarrow> bool" where
  "py_in needle [] = (needle = [])"
| "py_in needle (h # hs) = (starts_with needle (h # hs) \<or> py_in needle hs)"

text \<open>\<^verbatim>\<open>sep.join(parts)\<close>.\<close>

fun join :: "string \<Rightarrow> string list \<Rightarrow> string" where
  "join sep [] = []"
| "join sep [x] = x"
| "join sep (x # y # ys) = x @ sep @ join sep (y # ys)"

text \<open>The decimal digits of a non-negative integer.\<close>

function digits :: "int \<Rightarrow> string" where
  "digits n = (if n < 10 then [char_of (48 + n)] else digits (n div 10) @ [char_of (48 + n mod 10)])"
  by pat_completeness auto
termination
  by (relation "measure nat") auto

declare digits.simps [simp del]

definition str_int :: "int \<Rightarrow> string" where
  "str_int n = (if n < 0 then CHR ''-'' # digits (- n) else digits n)"

subsection \<open>Binary64 numbers\<close>

datatype pyfloat = Fin rat | NegZero | PInf | NInf | NaN

definition pow2 :: "int \<Rightarrow> rat" where
  "pow2 e = (if 0 \<le> e then 2 ^ nat e else 1 / 2 ^ nat (- e))"

definition pow10 :: "int \<Rightarrow> rat" where
  "pow10 e = (if 0 \<le> e then 10 ^ nat e else 1 / 10 ^ nat (- e))"

text \<open>Rounding a rational to an integer, ties to even.\<close>

definition rhe :: "rat \<Rightarrow> int" where
  "rhe q = (let f = \<lfloor>q\<rfloor>; d = q - of_int f
            in if d < 1 / 2 then f else if 1 / 2 < d then f + 1 else if even f then f else f + 1)"

text \<open>The number of binary digits of a positive integer.\<close>

function bits :: "int \<Rightarrow> int" where
  "bits n = (if n \<le> 0 then 0 else 1 + bits (n div 2))"
  by pat_completeness auto
termination
  by (relation "measure nat") auto

declare bits.simps [simp del]

text \<open>For \<open>0 < q\<close>, \<open>ilog2 q\<close> is the exponent \<open>e\<close> with \<open>2 ^ e \<le> q < 2 ^ (e + 1)\<close>.\<close>

definition ilog2 :: "rat \<Rightarrow> int" where
  "ilog2 q = (let (n, d) = quotient_of q; e = bits n - bits d
              in if pow2 e \<le> q then e else e - 1)"

text \<open>
  The binary64 value nearest to \<open>0 < q\<close>: 53 significant bits, the exponent not below
  \<open>-1022\<close> (subnormal numbers), \<open>None\<close> on overflow.
\<close>

definition fl_pos :: "rat \<Rightarrow> rat option" where
  "fl_pos q = (let e = max (ilog2 q) (- 1022); m = rhe (q / pow2 (e - 52))
               in if 1024 \<le> e \<or> (e = 1023 \<and> m = 2 ^ 53) then None
                  else Some (of_int m * pow2 (e - 52)))"

definition to_double :: "rat \<Rightarrow> pyfloat" where
  "to_double q =
     (if q = 0 then Fin 0
      else if 0 < q then (case fl_pos q of None \<Rightarrow> PInf | Some r \<Rightarrow> Fin r)
      else (case fl_pos (- q) of None \<Rightarrow> NInf
            | Some r \<Rightarrow> if r = 0 then NegZero else Fin (- r)))"

text \<open>\<^verbatim>\<open>x == 0\<close> on a float: both zeros are equal to \<^verbatim>\<open>0\<close>.\<close>

fun is_zero :: "pyfloat \<Rightarrow> bool" where
  "is_zero (Fin q) = (q = 0)"
| "is_zero NegZero = True"
| "is_zero x = False"

fun is_nan :: "pyfloat \<Rightarrow> bool" where
  "is_nan NaN = True"
| "is_nan x = False"

text \<open>
  \<^verbatim>\<open>f"{x:.6f}"\<close>: the exact value rounded to six fractional digits, ties to even; the sign
  of a negative value is kept also when all printed digits are zero.
\<close>

definition pad6 :: "int \<Rightarrow> string" where
  "pad6 n = replicate (6 - length (digits n)) (CHR ''0'') @ digits n"

definition fixed6 :: "rat \<Rightarrow> string" where
  "fixed6 q = (let k = rhe (q * 1000000)
               in digits (k div 1000000) @ ''.'' @ pad6 (k mod 1000000))"

fun format_6f :: "pyfloat \<Rightarrow> string" where
  "format_6f (Fin q) = (if q < 0 then CHR ''-'' # fixed6 (- q) else fixed6 q)"
| "format_6f NegZero = ''-0.000000''"
| "format_6f PInf = ''inf''"
| "format_6f NInf = ''-inf''"
| "format_6f NaN = ''nan''"

subsection \<open>Floats from strings and back\<close>

definition is_digit :: "char \<Rightarrow> bool" where
  "is_digit c = (let n = (of_char c :: nat) in 48 \<le> n \<and> n \<le> 57)"

definition digits_value :: "string \<Rightarrow> int" where
  "digits_value ds = foldl (\<lambda>a c. 10 * a + (of_char c - 48)) 0 ds"

text \<open>
  A digit part of a float literal: digits, with single underscores between digits.
  The result is the digits read and the rest of the input.
\<close>

fun digitpart_more :: "string \<Rightarrow> string \<times> string" where
  "digitpart_more [] = ([], [])"
| "digitpart_more [c] = (if is_digit c then ([c], []) else ([], [c]))"
| "digitpart_more (c # d # cs) =
     (if is_digit c then (case digitpart_more (d # cs) of (ds, r) \<Rightarrow> (c # ds, r))
      else if c = CHR ''_'' \<and> is_digit d then (case digitpart_more cs of (ds, r) \<Rightarrow> (d # ds, r))
      else ([], c # d # cs))"

definition digitpart :: "string \<Rightarrow> string \<times> string" where
  "digitpart s = (case s of [] \<Rightarrow> ([], [])
                  | c # cs \<Rightarrow> if is_digit c then (case digitpart_more cs of (ds, r) \<Rightarrow> (c # ds, r))
                             else ([], s))"

text \<open>The exponent part: empty, or \<^verbatim>\<open>e\<close> with an optional sign and a digit part to the end.\<close>

definition parse_exponent :: "string \<Rightarrow> int option" where
  "parse_exponent s =
     (case s of [] \<Rightarrow> Some 0
      | c # cs \<Rightarrow>
          if c = CHR ''e'' \<or> c = CHR ''E'' then
            (let (neg, body) = (case cs of [] \<Rightarrow> (False, [])
                                | g # r \<Rightarrow> if g = CHR ''-'' then (True, r)
                                          else if g = CHR ''+'' then (False, r) else (False, cs))
             in case digitpart body of (ds, rest) \<Rightarrow>
                  if ds = [] \<or> rest \<noteq> [] then None
                  else Some (if neg then - digits_value ds else digits_value ds))
          else None)"

text \<open>An unsigned decimal literal and the rational it denotes.\<close>

definition parse_number :: "string \<Rightarrow> rat option" where
  "parse_number s =
     (case digitpart s of (ip, r1) \<Rightarrow>
        (case (case r1 of [] \<Rightarrow> ([], r1)
                | c # cs \<Rightarrow> if c = CHR ''.'' then digitpart cs else ([], r1)) of (fp, r2) \<Rightarrow>
           if ip = [] \<and> fp = [] then None
           else (case parse_exponent r2 of None \<Rightarrow> None
                 | Some e \<Rightarrow> Some (of_int (digits_value (ip @ fp)) * pow10 (e - int (length fp))))))"

text \<open>
  \<^verbatim>\<open>float(s)\<close> for a string: surrounding whitespace is dropped; \<open>None\<close> stands for
  \<^verbatim>\<open>ValueError\<close>.
\<close>

definition parse_float :: "string \<Rightarrow> pyfloat option" where
  "parse_float s =
     (let t = py_strip s;
          (neg, body) = (case t of [] \<Rightarrow> (False, [])
                         | c # cs \<Rightarrow> if c = CHR ''-'' then (True, cs)
                                    else if c = CHR ''+'' then (False, cs) else (False, t));
          lb = py_lower body
      in if lb = ''inf'' \<or> lb = ''infinity'' then Some (if neg then NInf else PInf)
         else if lb = ''nan'' then Some NaN
         else (case parse_number body of None \<Rightarrow> None
               | Some q \<Rightarrow> Some (if neg then (if q = 0 then NegZero else to_double (- q))
                                 else to_double q)))"

text \<open>
  \<^verbatim>\<open>str(x)\<close> for a float: the shortest decimal digits that read back as \<open>x\<close> (the nearest
  such, when there are several), in positional notation when the decimal point falls
  between \<open>-4\<close> and \<open>16\<close>, in exponent notation otherwise.
\<close>

definition ilog10 :: "rat \<Rightarrow> int" where
  "ilog10 a = (let k = (ilog2 a * 30103) div 100000
               in if a < pow10 k then k - 1 else if pow10 (k + 1) \<le> a then k + 1 else k)"

definition candidate :: "rat \<Rightarrow> int \<Rightarrow> nat \<Rightarrow> int option" where
  "candidate a k n =
     (let sc = pow10 (k - int n + 1); s = a / sc; lo = \<lfloor>s\<rfloor>; hi = \<lceil>s\<rceil>;
          ok_lo = (to_double (of_int lo * sc) = Fin a);
          ok_hi = (to_double (of_int hi * sc) = Fin a)
      in if ok_lo \<and> ok_hi then Some (rhe s)
         else if ok_lo then Some lo else if ok_hi then Some hi else None)"

fun shortest :: "rat \<Rightarrow> int \<Rightarrow> nat list \<Rightarrow> int \<times> int" where
  "shortest a k [] = (rhe (a / pow10 (k - 16)), k - 16)"
| "shortest a k (n # ns) =
     (case candidate a k n of Some d \<Rightarrow> (d, k - int n + 1) | None \<Rightarrow> shortest a k ns)"

definition exponent_text :: "int \<Rightarrow> string" where
  "exponent_text e = CHR ''e'' # (if e < 0 then CHR ''-'' else CHR ''+'')
                       # (if \<bar>e\<bar> < 10 then CHR ''0'' # digits \<bar>e\<bar> else digits \<bar>e\<bar>)"

definition repr_pos :: "rat \<Rightarrow> string" where
  "repr_pos a =
     (case shortest a (ilog10 a) [1 ..< 18] of (d, p) \<Rightarrow>
        (let full = digits d;
             ds = rev (dropWhile (\<lambda>c. c = CHR ''0'') (rev full));
             decpt = int (length full) + p
         in if - 4 < decpt \<and> decpt \<le> 16 then
              (if decpt \<le> 0 then ''0.'' @ replicate (nat (- decpt)) (CHR ''0'') @ ds
               else if int (length ds) \<le> decpt
                 then ds @ replicate (nat (decpt - int (length ds))) (CHR ''0'') @ ''.0''
               else take (nat decpt) ds @ ''.'' @ drop (nat decpt) ds)
            else take 1 ds @ (if 1 < length ds then ''.'' @ drop 1 ds else [])
                   @ exponent_text (decpt - 1)))"

fun float_repr :: "pyfloat \<Rightarrow> string" where
  "float_repr (Fin q) =
     (if q = 0 then ''0.0'' else if q < 0 then CHR ''-'' # repr_pos (- q) else repr_pos q)"
| "float_repr NegZero = ''-0.0''"
| "float_repr PInf = ''inf''"
| "float_repr NInf = ''-inf''"
| "float_repr NaN = ''nan''"

text \<open>
  \<^verbatim>\<open>round(x, 6)\<close>: the exact value rounded to six decimals, ties to even, then the nearest
  float; a negative value that rounds to zero gives \<^verbatim>\<open>-0.0\<close>.
\<close>

fun round6 :: "pyfloat \<Rightarrow> pyfloat" where
  "round6 (Fin q) =
     (let k = rhe (q * 1000000)
      in if k = 0 then (if q < 0 then NegZero else Fin 0) else to_double (of_int k / 1000000))"
| "round6 x = x"

subsection \<open>Cells, data frames and errors\<close>

datatype py_error =
    KeyError string
  | IndexError
  | ValueError
  | TypeError
  | OverflowError
  | ReadError string

text \<open>
  A cell of a data frame: a float (\<open>PyFloat NaN\<close> is the missing value), an integer or a
  string. A data frame has named columns and rows of cells, one cell per column.
\<close>

datatype cell = PyFloat pyfloat | PyInt int | PyStr string

record dataframe =
  df_columns :: "string list"
  df_rows :: "cell list list"

fun col_index :: "string \<Rightarrow> string list \<Rightarrow> nat option" where
  "col_index name [] = None"
| "col_index name (c # cs) =
     (if c = name then Some 0 else (case col_index name cs of None \<Rightarrow> None | Some j \<Rightarrow> Some (Suc j)))"

text \<open>\<^verbatim>\<open>row.iloc[j]\<close>: positional access, \<^verbatim>\<open>IndexError\<close> out of range.\<close>

definition iloc :: "cell list \<Rightarrow> nat \<Rightarrow> py_error + cell" where
  "iloc row j = (if j < length row then Inr (row ! j) else Inl IndexError)"

text \<open>Running a fallible step over a list, stopping at the first error.\<close>

fun map_result :: "('a \<Rightarrow> 'e + 'b) \<Rightarrow> 'a list \<Rightarrow> 'e + 'b list" where
  "map_result f [] = Inr []"
| "map_result f (x # xs) =
     (case f x of Inl e \<Rightarrow> Inl e
      | Inr y \<Rightarrow> (case map_result f xs of Inl e \<Rightarrow> Inl e | Inr ys \<Rightarrow> Inr (y # ys)))"

text \<open>\<^verbatim>\<open>float(n)\<close> for an integer: \<^verbatim>\<open>OverflowError\<close> beyond the binary64 range.\<close>

definition float_of_int :: "int \<Rightarrow> py_error + pyfloat" where
  "float_of_int n = (case to_double (of_int n) of PInf \<Rightarrow> Inl OverflowError
                     | NInf \<Rightarrow> Inl OverflowError | x \<Rightarrow> Inr x)"

section \<open>SHA-256\<close>

text \<open>
  \<^verbatim>\<open>hashlib.sha256(s.encode('utf-8')).hexdigest()\<close>: the digest of the bytes of \<open>s\<close> as 64
  hexadecimal digits (FIPS 180-4).
\<close>

type_synonym w32 = "32 word"

definition rotr :: "nat \<Rightarrow> w32 \<Rightarrow> w32" where
  "rotr n x = (drop_bit n x) OR (push_bit (32 - n) x)"

definition ch :: "w32 \<Rightarrow> w32 \<Rightarrow> w32 \<Rightarrow> w32" where
  "ch x y z = (x AND y) XOR (NOT x AND z)"

definition maj :: "w32 \<Rightarrow> w32 \<Rightarrow> w32 \<Rightarrow> w32" where
  "maj x y z = (x AND y) XOR (x AND z) XOR (y AND z)"

definition bsig0 :: "w32 \<Rightarrow> w32" where
  "bsig0 x = rotr 2 x XOR rotr 13 x XOR rotr 22 x"

definition bsig1 :: "w32 \<Rightarrow> w32" where
  "bsig1 x = rotr 6 x XOR rotr 11 x XOR rotr 25 x"

definition ssig0 :: "w32 \<Rightarrow> w32" where
  "ssig0 x = rotr 7 x XOR rotr 18 x XOR drop_bit 3 x"

definition ssig1 :: "w32 \<Rightarrow> w32" where
  "ssig1 x = rotr 17 x XOR rotr 19 x XOR drop_bit 10 x"

definition sha_k :: "w32 list" where
  "sha_k =
    [1116352408, 1899447441, 3049323471, 3921009573, 961987163, 1508970993,
     2453635748, 2870763221, 3624381080, 310598401, 607225278, 1426881987,
     1925078388, 2162078206, 2614888103, 3248222580, 3835390401, 4022224774,
     264347078, 604807628, 770255983, 1249150122, 1555081692, 1996064986,
     2554220882, 2821834349, 2952996808, 3210313671, 3336571891, 3584528711,
     113926993, 338241895, 666307205, 773529912, 1294757372, 1396182291,
     1695183700, 1986661051, 2177026350, 2456956037, 2730485921, 2820302411,
     3259730800, 3345764771, 3516065817, 3600352804, 4094571909, 275423344,
     430227734, 506948616, 659060556, 883997877, 958139571, 1322822218,
     1537002063, 1747873779, 1955562222, 2024104815, 2227730452, 2361852424,
     2428436474, 2756734187, 3204031479, 3329325298]"

definition sha_h0 :: "w32 list" where
  "sha_h0 =
    [1779033703, 3144134277, 1013904242, 2773480762, 1359893119, 2600822924,
     528734635, 1541459225]"

definition be64 :: "int \<Rightarrow> int list" where
  "be64 n = map (\<lambda>i. (n div 256 ^ (7 - i)) mod 256) [0 ..< 8]"

definition sha_pad :: "int list \<Rightarrow> int list" where
  "sha_pad bs = bs @ [128] @ replicate ((119 - length bs mod 64) mod 64) 0 @ be64 (8 * int (length bs))"

fun sha_words :: "int list \<Rightarrow> w32 list" where
  "sha_words (a # b # c # d # rest) = word_of_int (((a * 256 + b) * 256 + c) * 256 + d) # sha_words rest"
| "sha_words rest = []"

text \<open>The message schedule, newest word first.\<close>

fun schedule :: "nat \<Rightarrow> w32 list \<Rightarrow> w32 list" where
  "schedule 0 ws = ws"
| "schedule (Suc n) ws = schedule n ((ssig1 (ws ! 1) + ws ! 6 + ssig0 (ws ! 14) + ws ! 15) # ws)"

fun sha_round :: "w32 list \<Rightarrow> w32 \<times> w32 \<Rightarrow> w32 list" where
  "sha_round [a, b, c, d, e, f, g, h] (k, w) =
     (let t1 = h + bsig1 e + ch e f g + k + w; t2 = bsig0 a + maj a b c
      in [t1 + t2, a, b, c, d + t1, e, f, g])"
| "sha_round s kw = s"

definition sha_block :: "w32 list \<Rightarrow> w32 list \<Rightarrow> w32 list" where
  "sha_block hs block =
     map2 (+) hs (foldl sha_round hs (zip sha_k (rev (schedule 48 (rev block)))))"

fun sha_blocks :: "w32 list \<Rightarrow> w32 list \<Rightarrow> w32 list" where
  "sha_blocks hs ws = (if length ws < 16 then hs else sha_blocks (sha_block hs (take 16 ws)) (drop 16 ws))"

declare sha_blocks.simps [simp del]

definition hex_digit :: "int \<Rightarrow> char" where
  "hex_digit n = (if n < 10 then char_of (48 + n) else char_of (87 + n))"

definition hex_word :: "w32 \<Rightarrow> string" where
  "hex_word w = map (\<lambda>i. hex_digit ((uint w div 16 ^ (7 - i)) mod 16)) [0 ..< 8]"

definition sha256 :: "string \<Rightarrow> string" where
  "sha256 s = concat (map hex_word (sha_blocks sha_h0 (sha_words (sha_pad (map of_char s)))))"

section \<open>\<^verbatim>\<open>ValidationNode.hash_columns\<close>\<close>

text \<open>
  \<^verbatim>\<open>
  def format_value(x):
      if isinstance(x, (int, float)):
          if x == 0 or x == 0.0 or x == -0.0:
              x = 0.0
          return f"{x:.6f}"
      return str(x)
  \<close>
\<close>

fun format_value :: "cell \<Rightarrow> py_error + string" where
  "format_value (PyFloat x) = Inr (format_6f (if is_zero x then Fin 0 else x))"
| "format_value (PyInt n) =
     (if n = 0 then Inr (format_6f (Fin 0))
      else (case float_of_int n of Inl e \<Rightarrow> Inl e | Inr x \<Rightarrow> Inr (format_6f x)))"
| "format_value (PyStr s) = Inr s"

text \<open>\<^verbatim>\<open>df[columns]\<close>: the named columns of every row, \<^verbatim>\<open>KeyError\<close> for a missing name.\<close>

definition select_columns :: "dataframe \<Rightarrow> string list \<Rightarrow> py_error + cell list list" where
  "select_columns df cols =
     (case map_result (\<lambda>c. case col_index c (df_columns df) of
                              None \<Rightarrow> Inl (KeyError c) | Some j \<Rightarrow> Inr j) cols of
        Inl e \<Rightarrow> Inl e
      | Inr js \<Rightarrow> map_result (\<lambda>row. map_result (iloc row) js) (df_rows df))"

definition format_row :: "cell list \<Rightarrow> py_error + string" where
  "format_row row = (case map_result format_value row of Inl e \<Rightarrow> Inl e
                     | Inr fs \<Rightarrow> Inr (join '','' fs))"

text \<open>
  The canonical string: the fields of a row joined with a comma, the rows with a bar;
  for a frame without rows it is taken to be the empty string.
\<close>

definition concat_str :: "dataframe \<Rightarrow> string list \<Rightarrow> py_error + string" where
  "concat_str df cols =
     (case select_columns df cols of Inl e \<Rightarrow> Inl e
      | Inr rs \<Rightarrow> (case map_result format_row rs of Inl e \<Rightarrow> Inl e
                   | Inr ls \<Rightarrow> Inr (join ''|'' ls)))"

definition hash_columns :: "dataframe \<Rightarrow> string list \<Rightarrow> py_error + (string \<times> string)" where
  "hash_columns df cols =
     (case concat_str df cols of Inl e \<Rightarrow> Inl e | Inr s \<Rightarrow> Inr (sha256 s, s))"

section \<open>\<^verbatim>\<open>ValidationNode.log_validation_result\<close>\<close>

text \<open>
  The log file is its content, a string; \<open>timestamp\<close> is the local time as formatted by
  \<^verbatim>\<open>datetime.now().strftime("%Y-%m-%d %H:%M:%S")\<close>. \<open>match\<close> is \<^verbatim>\<open>True\<close>, \<^verbatim>\<open>False\<close> or
  \<^verbatim>\<open>None\<close>; only \<^verbatim>\<open>True\<close> is truthy.
\<close>

definition status_of :: "bool option \<Rightarrow> string" where
  "status_of match = (if match = Some True then ''correct'' else ''wrong'')"

definition log_line :: "string \<Rightarrow> string \<Rightarrow> bool option \<Rightarrow> string" where
  "log_line timestamp file_name match =
     ''['' @ timestamp @ ''] '' @ file_name @ '' | '' @ status_of match @ [newline]"

definition log_validation_result :: "string \<Rightarrow> string \<Rightarrow> bool option \<Rightarrow> string \<Rightarrow> string" where
  "log_validation_result timestamp file_name match logged = logged @ log_line timestamp file_name match"

definition line_count :: "string \<Rightarrow> nat" where
  "line_count s = count_list s newline"

section \<open>Comparison of two data frames\<close>

subsection \<open>Float arithmetic of the row comparison\<close>

fun fsub :: "pyfloat \<Rightarrow> pyfloat \<Rightarrow> pyfloat" where
  "fsub NaN y = NaN"
| "fsub x NaN = NaN"
| "fsub PInf PInf = NaN"
| "fsub NInf NInf = NaN"
| "fsub PInf y = PInf"
| "fsub NInf y = NInf"
| "fsub x PInf = NInf"
| "fsub x NInf = PInf"
| "fsub NegZero NegZero = Fin 0"
| "fsub NegZero (Fin b) = (if b = 0 then NegZero else Fin (- b))"
| "fsub (Fin a) NegZero = Fin a"
| "fsub (Fin a) (Fin b) = to_double (a - b)"

fun fabs :: "pyfloat \<Rightarrow> pyfloat" where
  "fabs (Fin q) = Fin \<bar>q\<bar>"
| "fabs NegZero = Fin 0"
| "fabs PInf = PInf"
| "fabs NInf = PInf"
| "fabs NaN = NaN"

text \<open>Comparisons: every comparison with \<^verbatim>\<open>nan\<close> is false, the two zeros are equal.\<close>

fun flt :: "pyfloat \<Rightarrow> pyfloat \<Rightarrow> bool" where
  "flt NaN y = False"
| "flt x NaN = False"
| "flt x NInf = False"
| "flt PInf y = False"
| "flt NInf y = True"
| "flt x PInf = True"
| "flt NegZero NegZero = False"
| "flt NegZero (Fin b) = (0 < b)"
| "flt (Fin a) NegZero = (a < 0)"
| "flt (Fin a) (Fin b) = (a < b)"

definition fge :: "pyfloat \<Rightarrow> pyfloat \<Rightarrow> bool" where
  "fge x y = (\<not> is_nan x \<and> \<not> is_nan y \<and> \<not> flt x y)"

text \<open>The float literal \<^verbatim>\<open>0.001\<close>.\<close>

definition tolerance :: pyfloat where
  "tolerance = to_double (1 / 1000)"

subsection \<open>Arithmetic on cells\<close>

text \<open>
  \<^verbatim>\<open>a - b\<close>, \<^verbatim>\<open>abs(d)\<close> and \<^verbatim>\<open>d < 0.001\<close> on the scalars read from two frames. A string
  operand raises \<^verbatim>\<open>TypeError\<close>; two integers are subtracted exactly; an integer next to
  a float is converted to a float first.
\<close>

definition bind_result :: "'e + 'a \<Rightarrow> ('a \<Rightarrow> 'e + 'b) \<Rightarrow> 'e + 'b" where
  "bind_result m f = (case m of Inl e \<Rightarrow> Inl e | Inr x \<Rightarrow> f x)"

fun py_sub :: "cell \<Rightarrow> cell \<Rightarrow> py_error + cell" where
  "py_sub (PyStr s) y = Inl TypeError"
| "py_sub x (PyStr s) = Inl TypeError"
| "py_sub (PyInt m) (PyInt n) = Inr (PyInt (m - n))"
| "py_sub (PyInt m) (PyFloat y) = bind_result (float_of_int m) (\<lambda>x. Inr (PyFloat (fsub x y)))"
| "py_sub (PyFloat x) (PyInt n) = bind_result (float_of_int n) (\<lambda>y. Inr (PyFloat (fsub x y)))"
| "py_sub (PyFloat x) (PyFloat y) = Inr (PyFloat (fsub x y))"

fun py_abs :: "cell \<Rightarrow> py_error + cell" where
  "py_abs (PyStr s) = Inl TypeError"
| "py_abs (PyInt n) = Inr (PyInt \<bar>n\<bar>)"
| "py_abs (PyFloat x) = Inr (PyFloat (fabs x))"

fun py_lt :: "cell \<Rightarrow> pyfloat \<Rightarrow> py_error + bool" where
  "py_lt (PyStr s) y = Inl TypeError"
| "py_lt (PyInt n) y = Inr (flt (Fin (of_int n)) y)"
| "py_lt (PyFloat x) y = Inr (flt x y)"

text \<open>\<^verbatim>\<open>abs(a - b) < 0.001\<close>.\<close>

definition within_tolerance :: "cell \<Rightarrow> cell \<Rightarrow> py_error + bool" where
  "within_tolerance a b =
     bind_result (py_sub a b) (\<lambda>d. bind_result (py_abs d) (\<lambda>m. py_lt m tolerance))"

subsection \<open>The row loop of the message branch\<close>

text \<open>\<^verbatim>\<open>df.iloc[i][name]\<close> for a row index \<open>i\<close> below the number of rows.\<close>

definition cell_at :: "dataframe \<Rightarrow> nat \<Rightarrow> string \<Rightarrow> py_error + cell" where
  "cell_at df i name =
     (case col_index name (df_columns df) of
        None \<Rightarrow> Inl (KeyError name)
      | Some j \<Rightarrow> iloc (df_rows df ! i) j)"

text \<open>
  The body of the \<^verbatim>\<open>try\<close> inside the loop: the four lookups and the two comparisons.
  \<open>Inl\<close> is an exception, which the loop catches.
\<close>

definition compare_row :: "dataframe \<Rightarrow> dataframe \<Rightarrow> nat \<Rightarrow> py_error + bool" where
  "compare_row df1 df2 i =
     bind_result (cell_at df1 i ''Liability'') (\<lambda>di_liability.
     bind_result (cell_at df1 i ''Asset'') (\<lambda>di_asset.
     bind_result (cell_at df2 i ''RIDER_VALUE'') (\<lambda>llm_rider.
     bind_result (cell_at df2 i ''ASSET_VALUE'') (\<lambda>llm_asset.
     bind_result (within_tolerance di_liability llm_rider) (\<lambda>liability_match.
     bind_result (within_tolerance di_asset llm_asset) (\<lambda>asset_match.
       Inr (liability_match \<and> asset_match)))))))"

text \<open>
  \<^verbatim>\<open>for i in range(min_rows)\<close>: the state is \<open>(matching_rows, total_comparisons)\<close>; a row
  whose comparison raises changes neither counter.
\<close>

fun compare_rows :: "dataframe \<Rightarrow> dataframe \<Rightarrow> nat list \<Rightarrow> nat \<times> nat \<Rightarrow> nat \<times> nat" where
  "compare_rows df1 df2 [] acc = acc"
| "compare_rows df1 df2 (i # rest) (matching_rows, total_comparisons) =
     compare_rows df1 df2 rest
       (case compare_row df1 df2 i of
          Inl e \<Rightarrow> (matching_rows, total_comparisons)
        | Inr m \<Rightarrow> (if m then matching_rows + 1 else matching_rows, total_comparisons + 1))"

text \<open>
  \<^verbatim>\<open>(matching_rows / total_comparisons) * 100\<close>: the quotient of two integers is the
  nearest float, and so is its product with \<^verbatim>\<open>100\<close>. The quotient lies between 0 and 1.
\<close>

definition match_percentage :: "nat \<Rightarrow> nat \<Rightarrow> pyfloat" where
  "match_percentage matching_rows total_comparisons =
     (case to_double (of_nat matching_rows / of_nat total_comparisons) of
        Fin r \<Rightarrow> to_double (r * 100)
      | x \<Rightarrow> x)"

record comparison =
  v_match :: "bool option"
  v_hash1 :: "string option"
  v_hash2 :: "string option"
  v_concat1 :: "string option"
  v_concat2 :: "string option"

text \<open>
  The hash comparison, as written three times in \<^verbatim>\<open>__call__\<close>:
  \<^verbatim>\<open>
  hash1, concat1 = self.hash_columns(df1, ["Liability", "Asset"])
  hash2, concat2 = self.hash_columns(df2, ["RIDER_VALUE", "ASSET_VALUE"])
  match = (hash1 == hash2)
  \<close>
\<close>

definition exact_compare :: "dataframe \<Rightarrow> dataframe \<Rightarrow> py_error + comparison" where
  "exact_compare df1 df2 =
     bind_result (hash_columns df1 [''Liability'', ''Asset'']) (\<lambda>(hash1, concat1).
     bind_result (hash_columns df2 [''RIDER_VALUE'', ''ASSET_VALUE'']) (\<lambda>(hash2, concat2).
       Inr \<lparr>v_match = Some (hash1 = hash2), v_hash1 = Some hash1, v_hash2 = Some hash2,
            v_concat1 = Some concat1, v_concat2 = Some concat2\<rparr>))"

text \<open>The comparison of the message branch (lines 164 to 221 of the source).\<close>

definition row_diff :: "dataframe \<Rightarrow> dataframe \<Rightarrow> nat" where
  "row_diff df1 df2 = nat \<bar>int (length (df_rows df1)) - int (length (df_rows df2))\<bar>"

definition min_rows :: "dataframe \<Rightarrow> dataframe \<Rightarrow> nat" where
  "min_rows df1 df2 = min (length (df_rows df1)) (length (df_rows df2))"

definition fuzzy_compare :: "dataframe \<Rightarrow> dataframe \<Rightarrow> py_error + comparison" where
  "fuzzy_compare df1 df2 =
     (if row_diff df1 df2 \<le> 2 then
        (case compare_rows df1 df2 [0 ..< min_rows df1 df2] (0, 0) of
           (matching_rows, total_comparisons) \<Rightarrow>
             if 0 < total_comparisons then
               Inr \<lparr>v_match = Some (fge (match_percentage matching_rows total_comparisons) (Fin 80)),
                    v_hash1 = None, v_hash2 = None, v_concat1 = None, v_concat2 = None\<rparr>
             else exact_compare df1 df2)
      else exact_compare df1 df2)"

section \<open>Extraction from the workbook\<close>

text \<open>\<^verbatim>\<open>pd.notna(v)\<close>, \<^verbatim>\<open>str(v)\<close> and \<^verbatim>\<open>float(v)\<close> on a cell.\<close>

fun notna :: "cell \<Rightarrow> bool" where
  "notna (PyFloat x) = (\<not> is_nan x)"
| "notna c = True"

fun py_str :: "cell \<Rightarrow> string" where
  "py_str (PyStr s) = s"
| "py_str (PyInt n) = str_int n"
| "py_str (PyFloat x) = float_repr x"

fun py_float :: "cell \<Rightarrow> py_error + pyfloat" where
  "py_float (PyFloat x) = Inr x"
| "py_float (PyInt n) = float_of_int n"
| "py_float (PyStr s) = (case parse_float s of None \<Rightarrow> Inl ValueError | Some x \<Rightarrow> Inr x)"

text \<open>
  The header scan (lines 61 to 74): the cells of a row from left to right, the rows of
  the sheet \<^verbatim>\<open>WB\<close> from the top, until both columns are known.
  \<^verbatim>\<open>
  for idx, row in df1_wb.iterrows():
      for col_idx, value in enumerate(row):
          if pd.notna(value):
              value_str = str(value).strip().lower()
              if liability_col is None and value_str == "liability":
                  liability_col = col_idx
              elif asset_col is None and value_str == "asset":
                  asset_col = col_idx
      if liability_col is not None and asset_col is not None:
          break
  \<close>
\<close>

definition value_str :: "cell \<Rightarrow> string" where
  "value_str v = py_lower (py_strip (py_str v))"

fun scan_cells :: "cell list \<Rightarrow> nat \<Rightarrow> nat option \<times> nat option \<Rightarrow> nat option \<times> nat option" where
  "scan_cells [] col_idx found = found"
| "scan_cells (v # vs) col_idx (liability_col, asset_col) =
     scan_cells vs (Suc col_idx)
       (if notna v then
          (if liability_col = None \<and> value_str v = ''liability'' then (Some col_idx, asset_col)
           else if asset_col = None \<and> value_str v = ''asset'' then (liability_col, Some col_idx)
           else (liability_col, asset_col))
        else (liability_col, asset_col))"

fun scan_rows :: "cell list list \<Rightarrow> nat option \<times> nat option \<Rightarrow> nat option \<times> nat option" where
  "scan_rows [] found = found"
| "scan_rows (row # rest) found =
     (case scan_cells row 0 found of
        (Some l, Some a) \<Rightarrow> (Some l, Some a)
      | found' \<Rightarrow> scan_rows rest found')"

definition find_columns :: "dataframe \<Rightarrow> nat option \<times> nat option" where
  "find_columns df = scan_rows (df_rows df) (None, None)"

text \<open>
  The exceptions caught by \<^verbatim>\<open>except (ValueError, TypeError)\<close>.
\<close>

definition caught :: "py_error \<Rightarrow> bool" where
  "caught e = (e = ValueError \<or> e = TypeError)"

text \<open>
  The first data row (lines 84 to 94): the first row of \<^verbatim>\<open>WB\<close> whose two located cells
  are present and convert to floats.
\<close>

fun find_data_start :: "cell list list \<Rightarrow> nat \<Rightarrow> nat \<Rightarrow> nat \<Rightarrow> py_error + nat option" where
  "find_data_start [] idx liability_col asset_col = Inr None"
| "find_data_start (row # rest) idx liability_col asset_col =
     bind_result (iloc row liability_col) (\<lambda>l.
       if notna l then
         bind_result (iloc row asset_col) (\<lambda>a.
           if notna a then
             (case bind_result (py_float l) (\<lambda>x. py_float a) of
                Inr y \<Rightarrow> Inr (Some idx)
              | Inl e \<Rightarrow> if caught e then find_data_start rest (Suc idx) liability_col asset_col
                         else Inl e)
           else find_data_start rest (Suc idx) liability_col asset_col)
       else find_data_start rest (Suc idx) liability_col asset_col)"

text \<open>The row label (lines 114 to 118): the first cell that is present and not blank.\<close>

fun row_label :: "cell list \<Rightarrow> string" where
  "row_label [] = []"
| "row_label (c # cs) =
     (if notna c \<and> py_strip (py_str c) \<noteq> [] then py_strip (py_str c) else row_label cs)"

text \<open>
  The two values of a row (lines 125 and 126): a missing cell counts as \<^verbatim>\<open>0\<close>. The
  integer \<^verbatim>\<open>0\<close> is written as the float \<^verbatim>\<open>0.0\<close>: rounding, the test against zero,
  the column of the resulting frame and \<open>format_value\<close> treat both alike.
\<close>

definition cell_value :: "cell list \<Rightarrow> nat \<Rightarrow> py_error + pyfloat" where
  "cell_value row j = bind_result (iloc row j) (\<lambda>c. if notna c then py_float c else Inr (Fin 0))"

text \<open>
  One pass of the extraction loop (lines 107 to 138) on a row: \<open>Inr None\<close> when the row is
  skipped, \<open>Inr (Some (liability_val, asset_val))\<close> when it is appended, \<open>Inl\<close> when an
  exception leaves the loop.
\<close>

definition extract_row :: "nat \<Rightarrow> nat \<Rightarrow> cell list \<Rightarrow> py_error + (pyfloat \<times> pyfloat) option" where
  "extract_row liability_col asset_col row =
     bind_result (iloc row liability_col) (\<lambda>l.
     bind_result (if notna l then Inr False
                  else bind_result (iloc row asset_col) (\<lambda>a. Inr (\<not> notna a))) (\<lambda>both_missing.
       if both_missing then Inr None
       else if py_in ''Total'' (row_label row) \<and> \<not> py_in ''HY Total'' (row_label row) then Inr None
       else (case bind_result (cell_value row liability_col) (\<lambda>lv.
                  bind_result (cell_value row asset_col) (\<lambda>av. Inr (round6 lv, round6 av))) of
               Inl e \<Rightarrow> if caught e then Inr None else Inl e
             | Inr (liability_val, asset_val) \<Rightarrow>
                 if is_zero liability_val \<and> is_zero asset_val \<and> row_label row = [] then Inr None
                 else Inr (Some (liability_val, asset_val)))))"

fun extract_rows :: "nat \<Rightarrow> nat \<Rightarrow> cell list list \<Rightarrow> py_error + (pyfloat \<times> pyfloat) list" where
  "extract_rows liability_col asset_col [] = Inr []"
| "extract_rows liability_col asset_col (row # rest) =
     bind_result (extract_row liability_col asset_col row) (\<lambda>r.
     bind_result (extract_rows liability_col asset_col rest) (\<lambda>rs.
       Inr (case r of None \<Rightarrow> rs | Some v \<Rightarrow> v # rs)))"

text \<open>\<^verbatim>\<open>for idx in range(data_start_row, len(df))\<close> on one sheet.\<close>

definition extract_sheet ::
  "nat \<Rightarrow> nat \<Rightarrow> nat \<Rightarrow> dataframe \<Rightarrow> py_error + (pyfloat \<times> pyfloat) list" where
  "extract_sheet liability_col asset_col data_start_row df =
     extract_rows liability_col asset_col (drop data_start_row (df_rows df))"

datatype failure = Message string | Raised py_error

text \<open>
  Lines 61 to 140: the frame \<^verbatim>\<open>df1\<close> built from the two sheets. The columns and the first
  data row are looked for in \<^verbatim>\<open>WB\<close>; both sheets are then read with them.
\<close>

definition frame_of :: "(pyfloat \<times> pyfloat) list \<Rightarrow> dataframe" where
  "frame_of excel_data =
     \<lparr>df_columns = [''Liability'', ''Asset''],
      df_rows = map (\<lambda>(l, a). [PyFloat l, PyFloat a]) excel_data\<rparr>"

definition lift :: "py_error + 'a \<Rightarrow> failure + 'a" where
  "lift m = (case m of Inl e \<Rightarrow> Inl (Raised e) | Inr x \<Rightarrow> Inr x)"

definition extract_excel :: "dataframe \<Rightarrow> dataframe \<Rightarrow> failure + dataframe" where
  "extract_excel df1_wb df1_dbib =
     (case find_columns df1_wb of
        (Some liability_col, Some asset_col) \<Rightarrow>
          bind_result (lift (find_data_start (df_rows df1_wb) 0 liability_col asset_col)) (\<lambda>start.
            case start of
              None \<Rightarrow> Inl (Message ''Could not find data rows'')
            | Some data_start_row \<Rightarrow>
                bind_result (lift (extract_sheet liability_col asset_col data_start_row df1_wb)) (\<lambda>wb.
                bind_result (lift (extract_sheet liability_col asset_col data_start_row df1_dbib)) (\<lambda>dbib.
                  Inr (frame_of (wb @ dbib)))))
      | _ \<Rightarrow> Inl (Message ''Could not find Liability and Asset columns''))"

section \<open>\<^verbatim>\<open>ValidationNode.__call__\<close>\<close>

text \<open>
  The state dictionary, with \<open>None\<close> for an absent key; \<open>s_combined_output\<close> is
  \<^verbatim>\<open>state["excel_outputs"]["combined_output"]\<close>, \<open>s_docint_df\<close> and \<open>s_table_output\<close> are the
  two entries of \<^verbatim>\<open>state["msg_outputs"]\<close>. The files are reached through the environment:
  \<open>read_excel path sheet\<close> and \<open>read_csv path\<close> give a frame or the exception raised;
  \<open>timestamp\<close> is the formatted local time at the moment of logging and \<open>elapsed\<close> the
  measured processing time.
\<close>

text \<open>
  \<^verbatim>\<open>state["validation"]\<close>: the dictionary with the single key \<^verbatim>\<open>error\<close>, or the one with
  the five fields of the comparison and \<^verbatim>\<open>process_time\<close>.
\<close>

datatype validation = Failed failure | Validated comparison rat

record state =
  s_file_type :: "string option"
  s_file_path :: "string option"
  s_combined_output :: "string option"
  s_docint_df :: "dataframe option"
  s_table_output :: "string option"
  s_validation :: "validation option"

record env =
  read_excel :: "string \<Rightarrow> string \<Rightarrow> py_error + dataframe"
  read_csv :: "string \<Rightarrow> py_error + dataframe"
  timestamp :: string
  elapsed :: rat

text \<open>\<^verbatim>\<open>os.path.basename\<close> with the separator \<^verbatim>\<open>/\<close>.\<close>

definition basename :: "string \<Rightarrow> string" where
  "basename p = rev (takeWhile (\<lambda>c. c \<noteq> CHR ''/'') (rev p))"

definition unset :: comparison where
  "unset = \<lparr>v_match = None, v_hash1 = None, v_hash2 = None, v_concat1 = None, v_concat2 = None\<rparr>"

definition get_key :: "string \<Rightarrow> 'a option \<Rightarrow> failure + 'a" where
  "get_key k v = (case v of None \<Rightarrow> Inl (Raised (KeyError k)) | Some x \<Rightarrow> Inr x)"

text \<open>The spreadsheet branch (lines 47 to 148).\<close>

definition validate_excel :: "env \<Rightarrow> state \<Rightarrow> failure + comparison" where
  "validate_excel world st =
     bind_result (get_key ''file_path'' (s_file_path st)) (\<lambda>excel_path.
     bind_result (get_key ''excel_outputs'' (s_combined_output st)) (\<lambda>llm_output_path.
     bind_result (lift (read_excel world excel_path ''WB'')) (\<lambda>df1_wb.
     bind_result (lift (read_excel world excel_path ''DBIB'')) (\<lambda>df1_dbib.
     bind_result (extract_excel df1_wb df1_dbib) (\<lambda>df1.
     bind_result (lift (read_csv world llm_output_path)) (\<lambda>df2.
       lift (exact_compare df1 df2)))))))"

text \<open>The message branch (lines 149 to 227); an empty path is as good as none.\<close>

definition validate_msg :: "env \<Rightarrow> state \<Rightarrow> failure + comparison" where
  "validate_msg world st =
     (case (s_docint_df st, s_table_output st) of
        (Some df1, Some table_path) \<Rightarrow>
          if table_path \<noteq> [] then
            bind_result (lift (read_csv world table_path)) (\<lambda>df2.
              lift (fuzzy_compare df1 df2))
          else Inl (Message ''Missing Document Intelligence data or table output'')
      | _ \<Rightarrow> Inl (Message ''Missing Document Intelligence data or table output''))"

text \<open>
  The \<^verbatim>\<open>try\<close> block: \<open>Inl\<close> is one of the three early returns or an exception caught by
  \<^verbatim>\<open>except Exception\<close>.
\<close>

definition validate :: "env \<Rightarrow> state \<Rightarrow> failure + comparison" where
  "validate world st =
     (let file_type = (case s_file_type st of None \<Rightarrow> ''unknown'' | Some t \<Rightarrow> t)
      in if file_type = ''xlsx'' \<or> file_type = ''xls'' then validate_excel world st
         else if file_type = ''msg'' then validate_msg world st
         else Inr unset)"

text \<open>The call: the new state and the new content of the log.\<close>

definition file_name_of :: "state \<Rightarrow> string" where
  "file_name_of st = basename (case s_file_path st of None \<Rightarrow> [] | Some p \<Rightarrow> p)"

definition call :: "env \<Rightarrow> state \<Rightarrow> string \<Rightarrow> state \<times> string" where
  "call world st logged =
     (case validate world st of
        Inl error \<Rightarrow>
          (st\<lparr>s_validation := Some (Failed error)\<rparr>,
           log_validation_result (timestamp world) (file_name_of st) (Some False) logged)
      | Inr r \<Rightarrow>
          (st\<lparr>s_validation := Some (Validated r (elapsed world))\<rparr>,
           log_validation_result (timestamp world) (file_name_of st) (v_match r) logged))"

section \<open>Notions used in the statements\<close>

text \<open>
  The rows of the loop that compared as matching, and the rows that compared at all
  (without an exception): the final values of \<^verbatim>\<open>matching_rows\<close> and \<^verbatim>\<open>total_comparisons\<close>.
\<close>

definition matching_count :: "dataframe \<Rightarrow> dataframe \<Rightarrow> nat" where
  "matching_count df1 df2 =
     length (filter (\<lambda>i. compare_row df1 df2 i = Inr True) [0 ..< min_rows df1 df2])"

definition compared_count :: "dataframe \<Rightarrow> dataframe \<Rightarrow> nat" where
  "compared_count df1 df2 =
     length (filter (\<lambda>i. \<not> isl (compare_row df1 df2 i)) [0 ..< min_rows df1 df2])"

text \<open>
  A numeric cell is a float or a 64-bit integer; a numeric column is a column that exists
  and holds numeric cells only.
\<close>

fun is_number :: "cell \<Rightarrow> bool" where
  "is_number (PyStr s) = False"
| "is_number (PyFloat x) = True"
| "is_number (PyInt n) = (\<bar>n\<bar> < 2 ^ 63)"

definition numeric_column :: "dataframe \<Rightarrow> string \<Rightarrow> bool" where
  "numeric_column df name =
     (case col_index name (df_columns df) of
        None \<Rightarrow> False
      | Some j \<Rightarrow> list_all (\<lambda>row. j < length row \<and> is_number (row ! j)) (df_rows df))"

text \<open>
  The header columns as a function of the grid: a header cell of a role is a present
  cell whose text, stripped and in lower case, is the token; the column of a role is
  that of the first header cell of the first row that has one.
\<close>

definition is_header :: "string \<Rightarrow> cell \<Rightarrow> bool" where
  "is_header token c = (notna c \<and> value_str c = token)"

fun first_col :: "string \<Rightarrow> cell list \<Rightarrow> nat option" where
  "first_col token [] = None"
| "first_col token (c # cs) =
     (if is_header token c then Some 0 else map_option Suc (first_col token cs))"

fun first_in_rows :: "string \<Rightarrow> cell list list \<Rightarrow> nat option" where
  "first_in_rows token [] = None"
| "first_in_rows token (row # rest) =
     (case first_col token row of Some j \<Rightarrow> Some j | None \<Rightarrow> first_in_rows token rest)"

section \<open>Example inputs\<close>

definition float_rows :: "(rat \<times> rat) list \<Rightarrow> cell list list" where
  "float_rows vs = map (\<lambda>(l, a). [PyFloat (Fin l), PyFloat (Fin a)]) vs"

definition docint10 :: dataframe where
  "docint10 = \<lparr>df_columns = [''Liability'', ''Asset''],
     df_rows = float_rows [(1, 2), (3, 4), (5, 6), (7, 8), (9, 10), (11, 12), (13, 14), (15, 16),
                           (17, 18), (19, 20)]\<rparr>"

definition llm10_8 :: dataframe where
  "llm10_8 = \<lparr>df_columns = [''RIDER_VALUE'', ''ASSET_VALUE''],
     df_rows = float_rows [(1, 2), (3, 4), (5, 6), (7, 8), (9, 10), (11, 12), (13, 14), (15, 16),
                           (17, 37 / 2), (39 / 2, 20)]\<rparr>"

definition llm10_7 :: dataframe where
  "llm10_7 = \<lparr>df_columns = [''RIDER_VALUE'', ''ASSET_VALUE''],
     df_rows = float_rows [(1, 2), (3, 4), (5, 6), (7, 8), (9, 10), (11, 12), (13, 14), (31 / 2, 16),
                           (17, 37 / 2), (39 / 2, 20)]\<rparr>"

definition docint4 :: dataframe where
  "docint4 = \<lparr>df_columns = [''Liability'', ''Asset''],
     df_rows = [[PyFloat (Fin 1), PyFloat (Fin 2)], [PyFloat (Fin 3), PyFloat (Fin 4)],
                [PyFloat (Fin 5), PyFloat (Fin 6)], [PyStr ''N/A'', PyFloat (Fin 8)]]\<rparr>"

definition llm4 :: dataframe where
  "llm4 = \<lparr>df_columns = [''RIDER_VALUE'', ''ASSET_VALUE''],
     df_rows = float_rows [(1, 2), (3, 4), (5, 6), (7, 8)]\<rparr>"

definition llm13 :: dataframe where
  "llm13 = \<lparr>df_columns = [''RIDER_VALUE'', ''ASSET_VALUE''],
     df_rows = float_rows [(1, 2), (3, 4), (5, 6), (7, 8), (9, 10), (11, 12), (13, 14), (15, 16),
                           (17, 18), (19, 20), (21, 22), (23, 24), (25, 26)]\<rparr>"

definition llm0 :: dataframe where
  "llm0 = \<lparr>df_columns = [''RIDER_VALUE'', ''ASSET_VALUE''], df_rows = []\<rparr>"

text \<open>
  Two sheets as \<^verbatim>\<open>pd.read_excel\<close> returns them: the first line of a sheet gives the column
  names, the other lines are the rows; an empty cell is \<^verbatim>\<open>nan\<close>, a whole number an integer.
\<close>

definition sheet_columns :: "string list" where
  "sheet_columns = [''Daily Hedging P&L'', ''Unnamed: 1'', ''Unnamed: 2'']"



definition rider_row :: "cell list" where
  "rider_row = [PyStr ''Rider A'', PyInt 5, PyInt 7]"

definition grand_total_row :: "cell list" where
  "grand_total_row = [PyStr ''Grand Total'', PyInt 12, PyInt 14]"

definition hy_total_row :: "cell list" where
  "hy_total_row = [PyStr ''HY Total'', PyInt 3, PyInt 4]"

definition unlabelled_zero_row :: "cell list" where
  "unlabelled_zero_row = [PyFloat NaN, PyInt 0, PyInt 0]"

text \<open>
  A workbook whose second sheet has one more column to the left than the first, and the
  same second sheet without its header line.
\<close>

definition wb_two_columns :: dataframe where
  "wb_two_columns = \<lparr>df_columns = [''Daily Hedging P&L'', ''Unnamed: 1''],
     df_rows = [[PyStr ''Liability'', PyStr ''Asset''], [PyInt 1, PyInt 2]]\<rparr>"

definition dbib_shifted :: dataframe where
  "dbib_shifted = \<lparr>df_columns = sheet_columns,
     df_rows = [[PyStr ''Code'', PyStr ''Liability'', PyStr ''Asset''], [PyInt 7, PyInt 3, PyInt 4]]\<rparr>"

definition dbib_no_header :: dataframe where
  "dbib_no_header = \<lparr>df_columns = sheet_columns,
     df_rows = [[PyFloat NaN, PyFloat NaN, PyFloat NaN], [PyInt 7, PyInt 3, PyInt 4]]\<rparr>"






text \<open>
  The float \<^verbatim>\<open>-1e-07\<close> in a recognizer table, in a machine table and in a sheet, next to
  tables that hold \<^verbatim>\<open>0.0\<close> in its place.
\<close>

definition tiny_negative :: pyfloat where
  "tiny_negative = to_double (- 1 / 10000000)"

definition docint_tiny :: dataframe where
  "docint_tiny = \<lparr>df_columns = [''Liability'', ''Asset''],
     df_rows = [[PyFloat tiny_negative, PyFloat (Fin 1)]]\<rparr>"

definition llm_zero :: dataframe where
  "llm_zero = \<lparr>df_columns = [''RIDER_VALUE'', ''ASSET_VALUE''],
     df_rows = [[PyFloat (Fin 0), PyFloat (Fin 1)]]\<rparr>"

definition llm_tiny :: dataframe where
  "llm_tiny = \<lparr>df_columns = [''RIDER_VALUE'', ''ASSET_VALUE''],
     df_rows = [[PyFloat tiny_negative, PyFloat (Fin 1)]]\<rparr>"

definition wb_tiny :: dataframe where
  "wb_tiny = \<lparr>df_columns = sheet_columns,
     df_rows = [[PyFloat NaN, PyStr ''Liability'', PyStr ''Asset''],
                [PyStr ''Rider A'', PyFloat tiny_negative, PyInt 1]]\<rparr>"

definition dbib_empty :: dataframe where
  "dbib_empty = \<lparr>df_columns = sheet_columns, df_rows = []\<rparr>"

section \<open>Properties\<close>

lemma fixed6_zero: "fixed6 0 = ''0.000000''"
  by code_simp

text \<open>
  C7. Canonicalization maps every zero to one canonical zero before formatting: the
  single row \<open>(0.0, -0.0)\<close> and the single row \<open>(0, 0)\<close> of integers have the same canonical
  string \<open>0.000000,0.000000\<close> and hence the same digest.
\<close>

theorem zero_normalization:
  "hash_columns \<lparr>df_columns = [''Liability'', ''Asset''],
                  df_rows = [[PyFloat (Fin 0), PyFloat NegZero]]\<rparr> [''Liability'', ''Asset'']
     = Inr (sha256 ''0.000000,0.000000'', ''0.000000,0.000000'')
   \<and> hash_columns \<lparr>df_columns = [''Liability'', ''Asset''],
                  df_rows = [[PyInt 0, PyInt 0]]\<rparr> [''Liability'', ''Asset'']
     = Inr (sha256 ''0.000000,0.000000'', ''0.000000,0.000000'')"
  by (simp add: hash_columns_def concat_str_def select_columns_def iloc_def format_row_def
      fixed6_zero)

text \<open>
  C8. Every call of the recorder appends exactly one entry
  \<open>[timestamp] file_name | status\<close> with a final newline to the log and leaves the
  earlier content unchanged; the status is \<open>correct\<close> iff the verdict is \<^verbatim>\<open>True\<close> and
  \<open>wrong\<close> for \<^verbatim>\<open>False\<close> and \<^verbatim>\<open>None\<close>; two calls with the same arguments append two
  entries. When neither the timestamp nor the file name contains a line break, the
  entry is one line.
\<close>

theorem log_validation_result_appends:
  "log_validation_result ts file_name match logged
     = logged @ ''['' @ ts @ ''] '' @ file_name @ '' | ''
           @ (if match = Some True then ''correct'' else ''wrong'') @ [newline]
   \<and> log_validation_result ts' file_name match (log_validation_result ts file_name match logged)
     = logged @ log_line ts file_name match @ log_line ts' file_name match
   \<and> (newline \<notin> set ts \<and> newline \<notin> set file_name \<longrightarrow>
        line_count (log_validation_result ts file_name match logged) = line_count logged + 1)"
  by (simp add: log_validation_result_def log_line_def status_of_def line_count_def newline_def)

theorem log_validation_result_appends_witness:
  "log_validation_result ''2024-05-01 10:00:00'' ''a.msg'' None ''[2024-05-01 09:00:00] b.msg | correct\<newline>''
     = ''[2024-05-01 09:00:00] b.msg | correct\<newline>[2024-05-01 10:00:00] a.msg | wrong\<newline>''
   \<and> newline \<notin> set ''2024-05-01 10:00:00'' \<and> newline \<notin> set ''a.msg''
   \<and> line_count (log_validation_result ''2024-05-01 10:00:00'' ''a.msg'' None
        ''[2024-05-01 09:00:00] b.msg | correct\<newline>'') = 2"
  using log_validation_result_appends [of "''2024-05-01 10:00:00''" "''a.msg''" None
      "''[2024-05-01 09:00:00] b.msg | correct\<newline>''"]
  by (simp add: newline_def line_count_def)

subsection \<open>The row loop\<close>

lemma compare_rows_counts:
  "compare_rows df1 df2 is (m, t) =
     (m + length (filter (\<lambda>i. compare_row df1 df2 i = Inr True) is),
      t + length (filter (\<lambda>i. \<not> isl (compare_row df1 df2 i)) is))"
proof (induction "is" arbitrary: m t)
  case Nil
  then show ?case by simp
next
  case (Cons i rest)
  show ?case
  proof (cases "compare_row df1 df2 i")
    case (Inl e)
    then show ?thesis using Cons.IH by simp
  next
    case (Inr b)
    then show ?thesis using Cons.IH by (cases b) simp_all
  qed
qed

lemma compare_rows_start:
  "compare_rows df1 df2 [0 ..< min_rows df1 df2] (0, 0) = (matching_count df1 df2, compared_count df1 df2)"
  by (simp add: compare_rows_counts matching_count_def compared_count_def)

lemma fuzzy_unfold:
  "fuzzy_compare df1 df2 =
     (if row_diff df1 df2 \<le> 2 \<and> 0 < compared_count df1 df2
      then Inr \<lparr>v_match = Some (fge (match_percentage (matching_count df1 df2) (compared_count df1 df2)) (Fin 80)),
                v_hash1 = None, v_hash2 = None, v_concat1 = None, v_concat2 = None\<rparr>
      else exact_compare df1 df2)"
  by (simp add: fuzzy_compare_def compare_rows_start)

lemma pct_8_10: "fge (match_percentage 8 10) (Fin 80)" by code_simp
lemma pct_7_10: "\<not> fge (match_percentage 7 10) (Fin 80)" by code_simp



lemma bits_le: "n < 2 ^ k \<Longrightarrow> bits n \<le> int k"
proof (induction k arbitrary: n)
  case 0
  then show ?case by (simp add: bits.simps)
next
  case (Suc k)
  have "n div 2 < 2 ^ k" using Suc.prems by simp
  then have "bits (n div 2) \<le> int k" by (rule Suc.IH)
  then show ?case by (subst bits.simps) simp
qed

lemma bits_nonneg: "0 \<le> bits n"
proof (induction n rule: bits.induct)
  case (1 n)
  then show ?case by (subst bits.simps) simp
qed

lemma fl_pos_int: 
  assumes "0 < n" "n < 2 ^ 63"
  shows "\<exists>r. fl_pos (of_int n) = Some r"
proof -
  have 1: "bits 1 = 1" by (simp add: bits.simps)
  have "bits n \<le> 63" using bits_le [of n 63] assms by simp
  then have "ilog2 (of_int n) \<le> 62"
    by (simp add: ilog2_def 1 Let_def)
  then show ?thesis
    by (auto simp add: fl_pos_def Let_def max_def)
qed

lemma float_of_int_ok:
  assumes "\<bar>n\<bar> < 2 ^ 63"
  shows "\<exists>x. float_of_int n = Inr x"
proof -
  consider "n = 0" | "0 < n" | "n < 0" by linarith
  then show ?thesis
  proof cases
    case 1
    then show ?thesis by (simp add: float_of_int_def to_double_def)
  next
    case 2
    then obtain r where "fl_pos (of_int n) = Some r" using fl_pos_int [of n] assms by auto
    then show ?thesis using 2 by (simp add: float_of_int_def to_double_def)
  next
    case 3
    then obtain r where "fl_pos (of_int (- n)) = Some r" using fl_pos_int [of "- n"] assms by auto
    then show ?thesis using 3 by (simp add: float_of_int_def to_double_def)
  qed
qed

lemma within_tolerance_numbers:
  assumes "is_number a" "is_number b"
  shows "\<exists>r. within_tolerance a b = Inr r"
proof (cases a)
  case (PyFloat x)
  show ?thesis
  proof (cases b)
    case (PyFloat y)
    then show ?thesis using \<open>a = PyFloat x\<close> by (simp add: within_tolerance_def bind_result_def)
  next
    case (PyInt n)
    then obtain y where "float_of_int n = Inr y" using assms float_of_int_ok by auto
    then show ?thesis using PyInt \<open>a = PyFloat x\<close> by (simp add: within_tolerance_def bind_result_def)
  next
    case (PyStr s)
    then show ?thesis using assms by simp
  qed
next
  case (PyInt m)
  show ?thesis
  proof (cases b)
    case (PyFloat y)
    obtain x where "float_of_int m = Inr x" using assms PyInt float_of_int_ok by auto
    then show ?thesis using PyFloat PyInt by (simp add: within_tolerance_def bind_result_def)
  next
    case (PyInt n)
    then show ?thesis using \<open>a = PyInt m\<close> by (simp add: within_tolerance_def bind_result_def)
  next
    case (PyStr s)
    then show ?thesis using assms by simp
  qed
next
  case (PyStr s)
  then show ?thesis using assms by simp
qed

lemma cell_at_numeric:
  assumes "numeric_column df name" "i < length (df_rows df)"
  shows "\<exists>c. cell_at df i name = Inr c \<and> is_number c"
proof -
  from assms(1) obtain j where j: "col_index name (df_columns df) = Some j"
    and all: "list_all (\<lambda>row. j < length row \<and> is_number (row ! j)) (df_rows df)"
    by (auto simp: numeric_column_def split: option.splits)
  from all assms(2) have "j < length (df_rows df ! i) \<and> is_number (df_rows df ! i ! j)"
    by (simp add: list_all_length)
  then show ?thesis by (simp add: cell_at_def j iloc_def)
qed

lemma compare_row_numeric:
  assumes "numeric_column df1 ''Liability''" "numeric_column df1 ''Asset''"
    "numeric_column df2 ''RIDER_VALUE''" "numeric_column df2 ''ASSET_VALUE''"
    "i < min_rows df1 df2"
  shows "\<not> isl (compare_row df1 df2 i)"
proof -
  have i1: "i < length (df_rows df1)" and i2: "i < length (df_rows df2)"
    using assms(5) by (simp_all add: min_rows_def)
  obtain a where a: "cell_at df1 i ''Liability'' = Inr a" "is_number a"
    using cell_at_numeric [OF assms(1) i1] by auto
  obtain b where b: "cell_at df1 i ''Asset'' = Inr b" "is_number b"
    using cell_at_numeric [OF assms(2) i1] by auto
  obtain c where c: "cell_at df2 i ''RIDER_VALUE'' = Inr c" "is_number c"
    using cell_at_numeric [OF assms(3) i2] by auto
  obtain d where d: "cell_at df2 i ''ASSET_VALUE'' = Inr d" "is_number d"
    using cell_at_numeric [OF assms(4) i2] by auto
  obtain r where r: "within_tolerance a c = Inr r"
    using within_tolerance_numbers [OF a(2) c(2)] by auto
  obtain q where q: "within_tolerance b d = Inr q"
    using within_tolerance_numbers [OF b(2) d(2)] by auto
  show ?thesis
    by (simp add: compare_row_def bind_result_def a b c d r q)
qed

lemma compared_count_numeric:
  assumes "numeric_column df1 ''Liability''" "numeric_column df1 ''Asset''"
    "numeric_column df2 ''RIDER_VALUE''" "numeric_column df2 ''ASSET_VALUE''"
  shows "compared_count df1 df2 = min_rows df1 df2"
proof -
  have "filter (\<lambda>i. \<not> isl (compare_row df1 df2 i)) [0 ..< min_rows df1 df2] = [0 ..< min_rows df1 df2]"
    using compare_row_numeric [OF assms] by (simp add: filter_id_conv)
  then show ?thesis by (simp add: compared_count_def)
qed

lemma ex8_counts: "row_diff docint10 llm10_8 = 0 \<and> min_rows docint10 llm10_8 = 10
    \<and> compared_count docint10 llm10_8 = 10 \<and> matching_count docint10 llm10_8 = 8"
  by code_simp

lemma ex7_counts: "row_diff docint10 llm10_7 = 0 \<and> min_rows docint10 llm10_7 = 10
    \<and> compared_count docint10 llm10_7 = 10 \<and> matching_count docint10 llm10_7 = 7"
  by code_simp

lemma ex10_numeric: "numeric_column docint10 ''Liability'' \<and> numeric_column docint10 ''Asset''
    \<and> numeric_column llm10_8 ''RIDER_VALUE'' \<and> numeric_column llm10_8 ''ASSET_VALUE''"
  by code_simp

lemma ex4_counts: "row_diff docint4 llm4 = 0 \<and> min_rows docint4 llm4 = 4
    \<and> compared_count docint4 llm4 = 3 \<and> matching_count docint4 llm4 = 3"
  by code_simp

lemma pct_3_4: "\<not> fge (match_percentage 3 4) (Fin 80)" by code_simp
lemma pct_3_3: "fge (match_percentage 3 3) (Fin 80)" by code_simp

text \<open>
  C4. In the message branch, a difference of more than two rows (for example 10 rows
  against 13) makes the comparison the hash comparison, whatever the rows hold; so does
  \<open>min_rows = 0\<close>, where no row is compared.
\<close>

theorem fuzzy_falls_back_to_exact:
  "(2 < row_diff df1 df2 \<longrightarrow> fuzzy_compare df1 df2 = exact_compare df1 df2)
   \<and> (length (df_rows df1) = 10 \<and> length (df_rows df2) = 13 \<longrightarrow>
        fuzzy_compare df1 df2 = exact_compare df1 df2)
   \<and> (min_rows df1 df2 = 0 \<longrightarrow> fuzzy_compare df1 df2 = exact_compare df1 df2)"
  by (simp add: fuzzy_unfold compared_count_def row_diff_def)

lemma ex13: "row_diff docint10 llm13 = 3 \<and> length (df_rows docint10) = 10 \<and> length (df_rows llm13) = 13
   \<and> min_rows docint10 llm0 = 0"
  by code_simp

theorem fuzzy_falls_back_to_exact_witness:
  "2 < row_diff docint10 llm13 \<and> length (df_rows docint10) = 10 \<and> length (df_rows llm13) = 13
   \<and> fuzzy_compare docint10 llm13 = exact_compare docint10 llm13
   \<and> min_rows docint10 llm0 = 0
   \<and> fuzzy_compare docint10 llm0 = exact_compare docint10 llm0"
  using fuzzy_falls_back_to_exact [of docint10 llm13] fuzzy_falls_back_to_exact [of docint10 llm0] ex13
  by simp


text \<open>
  C1, as amended. With a row difference of at most 2, every index below \<open>min_rows\<close> is
  compared field by field against the tolerance; a row whose comparison raises (a cell
  that is not a number) is left out of both counters. When at least one row was compared,
  \<open>match_percentage = matching_rows / total_comparisons * 100\<close> and the verdict is
  \<open>match_percentage \<ge> 80\<close>, with no digests; when none was, the comparison is the hash
  comparison. For numeric columns every row is compared, so the divisor is \<open>min_rows\<close>;
  8 matching rows of 10 compared give \<^verbatim>\<open>True\<close>, 7 of 10 give \<^verbatim>\<open>False\<close>.
\<close>

theorem fuzzy_match_percentage:
  assumes "row_diff df1 df2 \<le> 2"
  shows "(0 < compared_count df1 df2 \<longrightarrow>
            fuzzy_compare df1 df2 =
              Inr \<lparr>v_match = Some (fge (match_percentage (matching_count df1 df2)
                                                         (compared_count df1 df2)) (Fin 80)),
                   v_hash1 = None, v_hash2 = None, v_concat1 = None, v_concat2 = None\<rparr>)
       \<and> (compared_count df1 df2 = 0 \<longrightarrow> fuzzy_compare df1 df2 = exact_compare df1 df2)
       \<and> (numeric_column df1 ''Liability'' \<and> numeric_column df1 ''Asset'' \<and>
          numeric_column df2 ''RIDER_VALUE'' \<and> numeric_column df2 ''ASSET_VALUE'' \<longrightarrow>
            compared_count df1 df2 = min_rows df1 df2)
       \<and> (compared_count df1 df2 = 10 \<and> matching_count df1 df2 = 8 \<longrightarrow>
            fuzzy_compare df1 df2 =
              Inr \<lparr>v_match = Some True, v_hash1 = None, v_hash2 = None,
                   v_concat1 = None, v_concat2 = None\<rparr>)
       \<and> (compared_count df1 df2 = 10 \<and> matching_count df1 df2 = 7 \<longrightarrow>
            fuzzy_compare df1 df2 =
              Inr \<lparr>v_match = Some False, v_hash1 = None, v_hash2 = None,
                   v_concat1 = None, v_concat2 = None\<rparr>)"
  using assms compared_count_numeric [of df1 df2]
  by (simp add: fuzzy_unfold pct_8_10 pct_7_10)

theorem fuzzy_match_percentage_witness:
  "row_diff docint10 llm10_8 \<le> 2
   \<and> numeric_column docint10 ''Liability'' \<and> numeric_column docint10 ''Asset''
   \<and> numeric_column llm10_8 ''RIDER_VALUE'' \<and> numeric_column llm10_8 ''ASSET_VALUE''
   \<and> compared_count docint10 llm10_8 = 10 \<and> min_rows docint10 llm10_8 = 10
   \<and> matching_count docint10 llm10_8 = 8
   \<and> fuzzy_compare docint10 llm10_8 =
         Inr \<lparr>v_match = Some True, v_hash1 = None, v_hash2 = None,
              v_concat1 = None, v_concat2 = None\<rparr>
   \<and> row_diff docint10 llm10_7 \<le> 2
   \<and> compared_count docint10 llm10_7 = 10 \<and> matching_count docint10 llm10_7 = 7
   \<and> fuzzy_compare docint10 llm10_7 =
         Inr \<lparr>v_match = Some False, v_hash1 = None, v_hash2 = None,
              v_concat1 = None, v_concat2 = None\<rparr>"
  using fuzzy_match_percentage [of docint10 llm10_8] fuzzy_match_percentage [of docint10 llm10_7]
    ex8_counts ex7_counts ex10_numeric pct_8_10 pct_7_10
  by simp

text \<open>
  C1 as stated fails where a row cannot be compared: four rows on each side, three
  within the tolerance, the fourth with a text cell. \<open>matching_rows / n * 100\<close> is 75 and
  below 80, yet the verdict is \<^verbatim>\<open>True\<close>, since the divisor is the three rows compared.
\<close>

theorem fuzzy_percentage_counterexample:
  "row_diff docint4 llm4 \<le> 2 \<and> min_rows docint4 llm4 = 4 \<and> matching_count docint4 llm4 = 3
   \<and> \<not> fge (match_percentage (matching_count docint4 llm4) (min_rows docint4 llm4)) (Fin 80)
   \<and> fuzzy_compare docint4 llm4 =
         Inr \<lparr>v_match = Some True, v_hash1 = None, v_hash2 = None,
              v_concat1 = None, v_concat2 = None\<rparr>"
  using ex4_counts pct_3_4 pct_3_3 by (simp add: fuzzy_unfold)

subsection \<open>The tolerance\<close>





subsection \<open>The extraction loop\<close>

lemma extract_rows_skip:
  assumes "extract_row lc ac row = Inr None"
  shows "extract_rows lc ac (pre @ row # post) = extract_rows lc ac (pre @ post)"
proof (induction pre)
  case Nil
  show ?case by (cases "extract_rows lc ac post") (simp_all add: assms bind_result_def)
next
  case (Cons r pre)
  then show ?case by simp
qed

lemma extract_rows_keep:
  assumes "extract_row lc ac row = Inr (Some v)" "extract_rows lc ac pre = Inr p"
    "extract_rows lc ac post = Inr q"
  shows "extract_rows lc ac (pre @ row # post) = Inr (p @ v # q)"
  using assms(2)
proof (induction pre arbitrary: p)
  case Nil
  then show ?case by (simp add: assms bind_result_def)
next
  case (Cons r pre)
  then show ?case
    by (auto simp add: bind_result_def split: sum.splits option.splits)
qed

lemma total_row_skipped:
  assumes "lc < length row" "ac < length row"
    "py_in ''Total'' (row_label row)" "\<not> py_in ''HY Total'' (row_label row)"
  shows "extract_row lc ac row = Inr None"
  using assms by (simp add: extract_row_def iloc_def bind_result_def)

lemma hy_total_row_kept:
  assumes "lc < length row" "ac < length row" "notna (row ! lc) \<or> notna (row ! ac)"
    "py_in ''HY Total'' (row_label row)"
    "cell_value row lc = Inr lv" "cell_value row ac = Inr av"
  shows "extract_row lc ac row = Inr (Some (round6 lv, round6 av))"
proof -
  have "row_label row \<noteq> []" using assms(4) by auto
  then show ?thesis
    using assms by (auto simp add: extract_row_def iloc_def bind_result_def)
qed

lemma grand_total_facts:
  "1 < length grand_total_row \<and> 2 < length grand_total_row
   \<and> py_in ''Total'' (row_label grand_total_row)
   \<and> \<not> py_in ''HY Total'' (row_label grand_total_row)
   \<and> row_label grand_total_row = ''Grand Total''
   \<and> extract_rows 1 2 ([rider_row] @ [unlabelled_zero_row]) = Inr [(Fin 5, Fin 7), (Fin 0, Fin 0)]"
  by code_simp

lemma hy_total_facts:
  "1 < length hy_total_row \<and> 2 < length hy_total_row
   \<and> (notna (hy_total_row ! 1) \<or> notna (hy_total_row ! 2))
   \<and> py_in ''HY Total'' (row_label hy_total_row)
   \<and> row_label hy_total_row = ''HY Total''
   \<and> cell_value hy_total_row 1 = Inr (Fin 3) \<and> cell_value hy_total_row 2 = Inr (Fin 4)
   \<and> round6 (Fin 3) = Fin 3 \<and> round6 (Fin 4) = Fin 4
   \<and> extract_rows 1 2 [rider_row] = Inr [(Fin 5, Fin 7)]
   \<and> extract_rows 1 2 [unlabelled_zero_row] = Inr [(Fin 0, Fin 0)]"
  by code_simp

text \<open>
  C6. A row whose label contains \<open>Total\<close> and not \<open>HY Total\<close> is skipped: the loop gives
  the same data as without the row. A row whose label contains \<open>HY Total\<close> is appended with
  its two rounded values, provided one of its two cells is present and both convert.
  The rows \<open>Grand Total\<close> and \<open>HY Total\<close> of the example sheet are instances.
\<close>

theorem total_rows_filtered:
  "(lc < length row \<and> ac < length row \<and> py_in ''Total'' (row_label row)
      \<and> \<not> py_in ''HY Total'' (row_label row) \<longrightarrow>
        extract_row lc ac row = Inr None
        \<and> extract_rows lc ac (pre @ row # post) = extract_rows lc ac (pre @ post))
   \<and> (lc < length row \<and> ac < length row \<and> (notna (row ! lc) \<or> notna (row ! ac))
      \<and> py_in ''HY Total'' (row_label row)
      \<and> cell_value row lc = Inr lv \<and> cell_value row ac = Inr av \<longrightarrow>
        extract_row lc ac row = Inr (Some (round6 lv, round6 av)))
   \<and> (lc < length row \<and> ac < length row \<and> (notna (row ! lc) \<or> notna (row ! ac))
      \<and> py_in ''HY Total'' (row_label row)
      \<and> cell_value row lc = Inr lv \<and> cell_value row ac = Inr av
      \<and> extract_rows lc ac pre = Inr p \<and> extract_rows lc ac post = Inr q \<longrightarrow>
        extract_rows lc ac (pre @ row # post) = Inr (p @ (round6 lv, round6 av) # q))"
  using total_row_skipped [of lc row ac] extract_rows_skip [of lc ac row pre post]
    hy_total_row_kept [of lc row ac lv av]
    extract_rows_keep [of lc ac row "(round6 lv, round6 av)" pre p post q]
  by auto

theorem total_rows_filtered_witness:
  "row_label grand_total_row = ''Grand Total''
   \<and> extract_row 1 2 grand_total_row = Inr None
   \<and> extract_rows 1 2 ([rider_row] @ grand_total_row # [unlabelled_zero_row])
       = Inr [(Fin 5, Fin 7), (Fin 0, Fin 0)]
   \<and> row_label hy_total_row = ''HY Total''
   \<and> extract_row 1 2 hy_total_row = Inr (Some (Fin 3, Fin 4))
   \<and> extract_rows 1 2 ([rider_row] @ hy_total_row # [unlabelled_zero_row])
       = Inr ([(Fin 5, Fin 7)] @ (Fin 3, Fin 4) # [(Fin 0, Fin 0)])"
proof -
  have 1: "extract_row 1 2 grand_total_row = Inr None
      \<and> extract_rows 1 2 ([rider_row] @ grand_total_row # [unlabelled_zero_row])
          = extract_rows 1 2 ([rider_row] @ [unlabelled_zero_row])"
    using total_rows_filtered [where lc = 1 and row = grand_total_row and ac = 2
        and pre = "[rider_row]" and post = "[unlabelled_zero_row]"]
      grand_total_facts by blast
  have 2: "extract_row 1 2 hy_total_row = Inr (Some (round6 (Fin 3), round6 (Fin 4)))
      \<and> extract_rows 1 2 ([rider_row] @ hy_total_row # [unlabelled_zero_row])
          = Inr ([(Fin 5, Fin 7)] @ (round6 (Fin 3), round6 (Fin 4)) # [(Fin 0, Fin 0)])"
    using total_rows_filtered [where lc = 1 and row = hy_total_row and ac = 2 and lv = "Fin 3"
        and av = "Fin 4" and pre = "[rider_row]" and p = "[(Fin 5, Fin 7)]"
        and post = "[unlabelled_zero_row]" and q = "[(Fin 0, Fin 0)]"]
      hy_total_facts by blast
  have 3: "round6 (Fin 3) = Fin 3" "round6 (Fin 4) = Fin 4" using hy_total_facts by blast+
  show ?thesis using 1 2 grand_total_facts hy_total_facts unfolding 3 by metis
qed

text \<open>
  The label of a row is never empty once one of its two cells is present and both
  convert: the text of a number has a digit or a letter, and a blank text does not
  convert. So a row with values is appended whenever the \<open>Total\<close> test lets it pass,
  zero or not.
\<close>

lemma in_dropWhile: "x \<in> set xs \<Longrightarrow> \<not> P x \<Longrightarrow> x \<in> set (dropWhile P xs)"
  by (induction xs) auto

lemma strip_nonempty:
  assumes "c \<in> set s" "\<not> is_space c"
  shows "py_strip s \<noteq> []"
proof -
  have "c \<in> set (rev (dropWhile is_space s))"
    using in_dropWhile [of c s is_space] assms by simp
  then have "c \<in> set (dropWhile is_space (rev (dropWhile is_space s)))"
    using in_dropWhile [of c "rev (dropWhile is_space s)" is_space] assms(2) by simp
  then have "dropWhile is_space (rev (dropWhile is_space s)) \<noteq> []" by force
  then show ?thesis by (metis py_strip_def rev_is_Nil_conv)
qed

lemma digit_not_space:
  assumes "0 \<le> d" "d < 10"
  shows "\<not> is_space (char_of (48 + d :: int))"
proof -
  have all: "list_all (\<lambda>k. \<not> is_space (char_of (48 + k))) [0, 1, 2, 3, 4, 5, 6, 7, 8, 9 :: int]"
    by code_simp
  have "d = 0 \<or> d = 1 \<or> d = 2 \<or> d = 3 \<or> d = 4 \<or> d = 5 \<or> d = 6 \<or> d = 7 \<or> d = 8 \<or> d = 9"
    using assms by presburger
  then show ?thesis using all by auto
qed

lemma digits_nonblank:
  assumes "0 \<le> n"
  shows "py_strip (digits n) \<noteq> []"
proof (cases "n < 10")
  case True
  then have "digits n = [char_of (48 + n)]" by (simp add: digits.simps)
  then show ?thesis
    using strip_nonempty [of "char_of (48 + n)" "digits n"] digit_not_space [OF assms True] by simp
next
  case False
  then have "digits n = digits (n div 10) @ [char_of (48 + n mod 10)]"
    by (subst digits.simps) simp
  then show ?thesis
    using strip_nonempty [of "char_of (48 + n mod 10)" "digits n"]
      digit_not_space [of "n mod 10"] by simp
qed

lemma str_int_nonblank: "py_strip (str_int n) \<noteq> []"
proof (cases "n < 0")
  case True
  then show ?thesis
    using strip_nonempty [of "CHR ''-''" "str_int n"] by (simp add: str_int_def is_space_def)
next
  case False
  then show ?thesis using digits_nonblank [of n] by (simp add: str_int_def)
qed

lemma parse_blank: "py_strip s = [] \<Longrightarrow> parse_float s = None"
  by (simp add: parse_float_def parse_number_def digitpart_def py_lower_def)

lemma repr_pos_marks: "CHR ''.'' \<in> set (repr_pos a) \<or> CHR ''e'' \<in> set (repr_pos a)"
proof -
  obtain d p where sp: "shortest a (ilog10 a) [1 ..< 18] = (d, p)"
    by (cases "shortest a (ilog10 a) [1 ..< 18]")
  show ?thesis
    unfolding repr_pos_def sp by (simp add: Let_def exponent_text_def)
qed

lemma repr_pos_nonblank: "py_strip (repr_pos a) \<noteq> []"
  using repr_pos_marks [of a] strip_nonempty [of "CHR ''.''" "repr_pos a"]
    strip_nonempty [of "CHR ''e''" "repr_pos a"]
  by (auto simp add: is_space_def)

lemma float_repr_nonblank: "py_strip (float_repr x) \<noteq> []"
proof (cases x)
  case (Fin q)
  show ?thesis
  proof (cases "q = 0")
    case True
    then show ?thesis using Fin strip_nonempty [of "CHR ''.''" "''0.0''"] by (simp add: is_space_def)
  next
    case False
    show ?thesis
    proof (cases "q < 0")
      case True
      then show ?thesis
        using Fin strip_nonempty [of "CHR ''-''" "float_repr x"] by (simp add: is_space_def)
    next
      case False
      then show ?thesis using Fin \<open>q \<noteq> 0\<close> repr_pos_nonblank [of q] by simp
    qed
  qed
next
  case NegZero
  then show ?thesis using strip_nonempty [of "CHR ''.''" "''-0.0''"] by (simp add: is_space_def)
next
  case PInf
  then show ?thesis using strip_nonempty [of "CHR ''i''" "''inf''"] by (simp add: is_space_def)
next
  case NInf
  then show ?thesis using strip_nonempty [of "CHR ''i''" "''-inf''"] by (simp add: is_space_def)
next
  case NaN
  then show ?thesis using strip_nonempty [of "CHR ''a''" "''nan''"] by (simp add: is_space_def)
qed

lemma cell_nonblank:
  assumes "py_float c = Inr x"
  shows "py_strip (py_str c) \<noteq> []"
proof (cases c)
  case (PyFloat y)
  then show ?thesis using float_repr_nonblank by simp
next
  case (PyInt n)
  then show ?thesis using str_int_nonblank by simp
next
  case (PyStr s)
  then show ?thesis using assms parse_blank [of s] by (auto split: option.splits)
qed

lemma row_label_nonempty:
  "c \<in> set row \<Longrightarrow> notna c \<Longrightarrow> py_strip (py_str c) \<noteq> [] \<Longrightarrow> row_label row \<noteq> []"
  by (induction row) auto

lemma label_of_row_with_values:
  assumes "lc < length row" "ac < length row" "notna (row ! lc) \<or> notna (row ! ac)"
    "cell_value row lc = Inr lv" "cell_value row ac = Inr av"
  shows "row_label row \<noteq> []"
proof -
  from assms(3) show ?thesis
  proof
    assume n: "notna (row ! lc)"
    then have "py_float (row ! lc) = Inr lv"
      using assms(1,4) by (simp add: cell_value_def iloc_def bind_result_def)
    then have "py_strip (py_str (row ! lc)) \<noteq> []" by (rule cell_nonblank)
    then show ?thesis using row_label_nonempty [of "row ! lc" row] n assms(1) by simp
  next
    assume n: "notna (row ! ac)"
    then have "py_float (row ! ac) = Inr av"
      using assms(2,5) by (simp add: cell_value_def iloc_def bind_result_def)
    then have "py_strip (py_str (row ! ac)) \<noteq> []" by (rule cell_nonblank)
    then show ?thesis using row_label_nonempty [of "row ! ac" row] n assms(2) by simp
  qed
qed

lemma zero_rows_with_values_kept:
  assumes "lc < length row" "ac < length row" "notna (row ! lc) \<or> notna (row ! ac)"
    "cell_value row lc = Inr lv" "cell_value row ac = Inr av"
    "\<not> (py_in ''Total'' (row_label row) \<and> \<not> py_in ''HY Total'' (row_label row))"
  shows "extract_row lc ac row = Inr (Some (round6 lv, round6 av))"
  using assms label_of_row_with_values [OF assms(1-5)]
  by (auto simp add: extract_row_def iloc_def bind_result_def)


subsection \<open>The header scan\<close>

lemma map_option_shift:
  "map_option ((+) (Suc j)) x = map_option (\<lambda>k. Suc (j + k)) x"
  by (cases x) simp_all

lemma scan_cells_eq:
  "scan_cells vs j (l, a) =
     ((case l of Some x \<Rightarrow> Some x | None \<Rightarrow> map_option (\<lambda>k. j + k) (first_col ''liability'' vs)),
      (case a of Some x \<Rightarrow> Some x | None \<Rightarrow> map_option (\<lambda>k. j + k) (first_col ''asset'' vs)))"
proof (induction vs arbitrary: j l a)
  case Nil
  then show ?case by (simp split: option.splits)
next
  case (Cons v vs)
  show ?case
    by (simp add: Cons.IH is_header_def option.map_comp comp_def map_option_shift
        split: option.splits)
qed

lemma scan_rows_eq:
  "scan_rows rows (l, a) =
     ((case l of Some x \<Rightarrow> Some x | None \<Rightarrow> first_in_rows ''liability'' rows),
      (case a of Some x \<Rightarrow> Some x | None \<Rightarrow> first_in_rows ''asset'' rows))"
proof (induction rows arbitrary: l a)
  case Nil
  then show ?case by (simp split: option.splits)
next
  case (Cons row rows)
  show ?case
    by (simp add: scan_cells_eq Cons.IH option.map_ident split: option.splits)
qed

lemma find_columns_eq:
  "find_columns df = (first_in_rows ''liability'' (df_rows df), first_in_rows ''asset'' (df_rows df))"
  by (simp add: find_columns_def scan_rows_eq)

lemma first_col_first:
  "first_col token row = Some j \<Longrightarrow>
     j < length row \<and> is_header token (row ! j) \<and> (\<forall>k < j. \<not> is_header token (row ! k))"
proof (induction row arbitrary: j)
  case Nil
  then show ?case by simp
next
  case (Cons c cs)
  show ?case
  proof (cases "is_header token c")
    case True
    then show ?thesis using Cons.prems by simp
  next
    case False
    then obtain i where i: "first_col token cs = Some i" "j = Suc i"
      using Cons.prems by auto
    from Cons.IH [OF i(1)] False i(2) show ?thesis
      by (auto simp add: less_Suc_eq_0_disj)
  qed
qed

lemma extract_excel_unfold:
  assumes "find_columns wb = (Some lc, Some ac)"
    "find_data_start (df_rows wb) 0 lc ac = Inr (Some ds)"
  shows "extract_excel wb dbib =
     bind_result (lift (extract_sheet lc ac ds wb)) (\<lambda>xs.
     bind_result (lift (extract_sheet lc ac ds dbib)) (\<lambda>ys. Inr (frame_of (xs @ ys))))"
  using assms by (simp add: extract_excel_def lift_def bind_result_def)

lemma shifted_facts:
  "find_columns wb_two_columns = (Some 0, Some 1)
   \<and> find_data_start (df_rows wb_two_columns) 0 0 1 = Inr (Some 1)
   \<and> drop 1 (df_rows dbib_shifted) = drop 1 (df_rows dbib_no_header)
   \<and> first_in_rows ''liability'' (df_rows wb_two_columns) = Some 0
   \<and> first_in_rows ''asset'' (df_rows wb_two_columns) = Some 1
   \<and> first_in_rows ''liability'' (df_rows dbib_no_header) = None
   \<and> extract_excel wb_two_columns dbib_shifted = Inr (frame_of [(Fin 1, Fin 2), (Fin 7, Fin 3)])"
  by code_simp

text \<open>
  C2, as amended. The columns are found by labels on the sheet \<^verbatim>\<open>WB\<close> only: each is the
  column of the first header cell (case-insensitive, whole cell) in reading order. The
  columns and the first data row found on \<^verbatim>\<open>WB\<close> are used for both sheets; of \<^verbatim>\<open>DBIB\<close>
  only the rows from the first data row on are read, its header line is not looked at.
\<close>

theorem columns_located_on_wb:
  "find_columns df = (first_in_rows ''liability'' (df_rows df), first_in_rows ''asset'' (df_rows df))
   \<and> (find_columns wb = (Some lc, Some ac) \<and> find_data_start (df_rows wb) 0 lc ac = Inr (Some ds) \<longrightarrow>
        extract_excel wb dbib =
          bind_result (lift (extract_sheet lc ac ds wb)) (\<lambda>xs.
          bind_result (lift (extract_sheet lc ac ds dbib)) (\<lambda>ys. Inr (frame_of (xs @ ys)))))
   \<and> (find_columns wb = (Some lc, Some ac) \<and> find_data_start (df_rows wb) 0 lc ac = Inr (Some ds)
        \<and> drop ds (df_rows dbib) = drop ds (df_rows dbib') \<longrightarrow>
        extract_excel wb dbib = extract_excel wb dbib')"
  using find_columns_eq [of df] extract_excel_unfold [of wb lc ac ds dbib]
    extract_excel_unfold [of wb lc ac ds dbib']
  by (auto simp add: extract_sheet_def)

theorem columns_located_on_wb_witness:
  "find_columns wb_two_columns = (Some 0, Some 1)
   \<and> find_data_start (df_rows wb_two_columns) 0 0 1 = Inr (Some 1)
   \<and> drop 1 (df_rows dbib_shifted) = drop 1 (df_rows dbib_no_header)
   \<and> first_in_rows ''liability'' (df_rows dbib_no_header) = None
   \<and> extract_excel wb_two_columns dbib_no_header = Inr (frame_of [(Fin 1, Fin 2), (Fin 7, Fin 3)])"
proof -
  have "extract_excel wb_two_columns dbib_shifted = extract_excel wb_two_columns dbib_no_header"
    using columns_located_on_wb [where wb = wb_two_columns and lc = 0 and ac = 1 and ds = 1
        and dbib = dbib_shifted and dbib' = dbib_no_header]
      shifted_facts by blast
  then show ?thesis using shifted_facts by metis
qed

text \<open>
  C2 as stated fails: the second sheet has its headers in columns 1 and 2, where its data
  \<open>(3, 4)\<close> are, but it is read at the columns 0 and 1 found on the first sheet, giving \<open>(7, 3)\<close>.
\<close>

theorem columns_per_sheet_counterexample:
  "find_columns wb_two_columns = (Some 0, Some 1)
   \<and> find_columns dbib_shifted = (Some 1, Some 2)
   \<and> extract_sheet 1 2 1 dbib_shifted = Inr [(Fin 3, Fin 4)]
   \<and> extract_excel wb_two_columns dbib_shifted = Inr (frame_of [(Fin 1, Fin 2), (Fin 7, Fin 3)])"
  by code_simp

subsection \<open>Failures\<close>


lemma call_success:
  assumes "validate world st = Inr r"
  shows "call world st logged =
     (st\<lparr>s_validation := Some (Validated r (elapsed world))\<rparr>,
      logged @ ''['' @ timestamp world @ ''] '' @ file_name_of st @ '' | ''
        @ status_of (v_match r) @ [newline])"
  using assms
  by (simp add: call_def log_validation_result_def log_line_def)










subsection \<open>The hash comparison\<close>

text \<open>
  The verdict of the hash comparison is the equality of the two digests, each the
  SHA-256 of the canonical string of its frame; equal canonical strings match.
\<close>

lemma exact_compare_digests:
  assumes "exact_compare df1 df2 = Inr r"
  shows "\<exists>c1 c2. concat_str df1 [''Liability'', ''Asset''] = Inr c1
           \<and> concat_str df2 [''RIDER_VALUE'', ''ASSET_VALUE''] = Inr c2
           \<and> v_hash1 r = Some (sha256 c1) \<and> v_hash2 r = Some (sha256 c2)
           \<and> v_match r = Some (sha256 c1 = sha256 c2)"
  using assms
  by (auto simp add: exact_compare_def hash_columns_def bind_result_def split: sum.splits)

lemma equal_strings_match:
  assumes "concat_str df1 [''Liability'', ''Asset''] = Inr c"
    "concat_str df2 [''RIDER_VALUE'', ''ASSET_VALUE''] = Inr c"
  shows "exact_compare df1 df2 =
     Inr \<lparr>v_match = Some True, v_hash1 = Some (sha256 c), v_hash2 = Some (sha256 c),
          v_concat1 = Some c, v_concat2 = Some c\<rparr>"
  using assms by (simp add: exact_compare_def hash_columns_def bind_result_def)

lemma sha_minus_zero:
  "sha256 ''-0.000000,1.000000'' = ''cf28a3af89d030c5800f31cd8e4928fa0191f4c80f23727af92247830ee96885''"
  by code_simp

lemma sha_plus_zero:
  "sha256 ''0.000000,1.000000'' = ''cad7462d1d7b505048da8bbda05cc9e54e91846bc77dc58517d49df3f4e84f60''"
  by code_simp

lemma tiny_facts:
  "tiny_negative = Fin (- (944473296573929 / 9444732965739290427392))
   \<and> round6 tiny_negative = NegZero \<and> round6 (Fin 0) = Fin 0
   \<and> round6 (Fin 1) = Fin 1
   \<and> concat_str docint_tiny [''Liability'', ''Asset''] = Inr ''-0.000000,1.000000''
   \<and> concat_str llm_zero [''RIDER_VALUE'', ''ASSET_VALUE''] = Inr ''0.000000,1.000000''
   \<and> concat_str llm_tiny [''RIDER_VALUE'', ''ASSET_VALUE''] = Inr ''-0.000000,1.000000''
   \<and> extract_excel wb_tiny dbib_empty = Inr (frame_of [(NegZero, Fin 1)])
   \<and> concat_str (frame_of [(NegZero, Fin 1)]) [''Liability'', ''Asset''] = Inr ''0.000000,1.000000''"
  by code_simp

text \<open>
  C3 promises a match for two datasets that are identical after rounding to six
  decimals and zero normalization. \<open>format_value\<close> tests for zero before the value is
  rounded by the format: \<^verbatim>\<open>-1e-07\<close> is not zero, and prints as \<open>-0.000000\<close>, while \<^verbatim>\<open>0.0\<close>
  prints as \<open>0.000000\<close>. Both round to zero, yet the digests differ and the verdict is
  \<^verbatim>\<open>False\<close>. In the spreadsheet branch the value \<^verbatim>\<open>-1e-07\<close> of a sheet is rounded to
  \<^verbatim>\<open>-0.0\<close> first and printed as \<open>0.000000\<close>; the same value in the machine table is not,
  and the two sources disagree on the same number.
\<close>

theorem negative_rounding_to_zero_mismatch:
  "round6 tiny_negative = NegZero \<and> is_zero (round6 tiny_negative)
   \<and> round6 (Fin 0) = Fin 0 \<and> is_zero (round6 (Fin 0))
   \<and> exact_compare docint_tiny llm_zero =
       Inr \<lparr>v_match = Some False,
            v_hash1 = Some ''cf28a3af89d030c5800f31cd8e4928fa0191f4c80f23727af92247830ee96885'',
            v_hash2 = Some ''cad7462d1d7b505048da8bbda05cc9e54e91846bc77dc58517d49df3f4e84f60'',
            v_concat1 = Some ''-0.000000,1.000000'', v_concat2 = Some ''0.000000,1.000000''\<rparr>
   \<and> extract_excel wb_tiny dbib_empty = Inr (frame_of [(NegZero, Fin 1)])
   \<and> exact_compare (frame_of [(NegZero, Fin 1)]) llm_tiny =
       Inr \<lparr>v_match = Some False,
            v_hash1 = Some ''cad7462d1d7b505048da8bbda05cc9e54e91846bc77dc58517d49df3f4e84f60'',
            v_hash2 = Some ''cf28a3af89d030c5800f31cd8e4928fa0191f4c80f23727af92247830ee96885'',
            v_concat1 = Some ''0.000000,1.000000'', v_concat2 = Some ''-0.000000,1.000000''\<rparr>"
  using tiny_facts
  by (simp add: exact_compare_def hash_columns_def bind_result_def sha_minus_zero sha_plus_zero)

end
